theory Spec2Isabelle
  imports Main "HOL-Library.Word" "HOL-Library.AList"
begin

unbundle bit_operations_syntax

section \<open>Deck memory access of the Crazyflie client library\<close>

text \<open>
  A shallow embedding of \<^verbatim>\<open>cflib/crazyflie/mem/deck_memory.py\<close>: the class
  \<^verbatim>\<open>DeckMemory\<close> (one deck, its capability bits and the decoder of its slot of the
  info section) and the class \<^verbatim>\<open>DeckMemoryManager\<close> (the query, read and write
  requests and the entry points the memory handler calls back).

  Python integers are unbounded and are modelled as \<open>int\<close>. A \<^verbatim>\<open>bytes\<close> value is a
  list of 8-bit words. Every \<^verbatim>\<open>raise\<close>, and every exception of the Python run time
  the code can run into, is a value of the type \<open>exn\<close>.
\<close>

subsection \<open>Python values\<close>

type_synonym byte = "8 word"
type_synonym bytes = "byte list"

text \<open>A Python \<^verbatim>\<open>str\<close> is a sequence of Unicode code points.\<close>

type_synonym py_str = "nat list"

datatype exn =
    Exception string
  | TypeError
  | StructError
  | UnicodeDecodeError

text \<open>Python's slice \<^verbatim>\<open>data[start:end]\<close> for \<open>0 \<le> start \<le> end\<close>: it never
  raises and is cut at the end of the data.\<close>

definition slice :: "'a list \<Rightarrow> nat \<Rightarrow> nat \<Rightarrow> 'a list" where
  "slice data start end = take (end - start) (drop start data)"

text \<open>\<^verbatim>\<open>struct.unpack('<B', b)[0]\<close>: exactly one byte, read unsigned.\<close>

definition unpack_B :: "bytes \<Rightarrow> exn + int" where
  "unpack_B b = (case b of [x] \<Rightarrow> Inr (uint x) | _ \<Rightarrow> Inl StructError)"

text \<open>An unsigned little-endian integer.\<close>

fun le_uint :: "bytes \<Rightarrow> int" where
  "le_uint [] = 0"
| "le_uint (b # bs) = uint b + 256 * le_uint bs"

text \<open>\<^verbatim>\<open>struct.unpack('<LLL19s', b)\<close>: exactly 31 bytes, three unsigned 32-bit
  little-endian integers and a field of 19 bytes.\<close>

definition unpack_LLL19s :: "bytes \<Rightarrow> exn + (int \<times> int \<times> int \<times> bytes)" where
  "unpack_LLL19s b =
     (if length b \<noteq> 31 then Inl StructError
      else Inr (le_uint (slice b 0 4), le_uint (slice b 4 8), le_uint (slice b 8 12),
                slice b 12 31))"

text \<open>\<^verbatim>\<open>b.split(b'\x00')[0]\<close>: the bytes before the first NUL byte.\<close>

definition split0_first :: "bytes \<Rightarrow> bytes" where
  "split0_first b = takeWhile (\<lambda>x. x \<noteq> 0) b"

text \<open>
  \<^verbatim>\<open>b.decode()\<close> is the strict UTF-8 decoder: it accepts the well-formed byte
  sequences of the Unicode standard (no overlong form, no surrogate, nothing above
  U+10FFFF) and raises \<^verbatim>\<open>UnicodeDecodeError\<close> at any other byte.
\<close>

definition cont_byte :: "nat \<Rightarrow> nat \<Rightarrow> nat \<Rightarrow> bool" where
  "cont_byte lo hi c = (lo \<le> c \<and> c \<le> hi)"

definition second_lo :: "nat \<Rightarrow> nat" where
  "second_lo b = (if b = 0xE0 then 0xA0 else if b = 0xF0 then 0x90 else 0x80)"

definition second_hi :: "nat \<Rightarrow> nat" where
  "second_hi b = (if b = 0xED then 0x9F else if b = 0xF4 then 0x8F else 0xBF)"

definition cons_cp :: "nat \<Rightarrow> exn + py_str \<Rightarrow> exn + py_str" where
  "cons_cp c r = (case r of Inl e \<Rightarrow> Inl e | Inr s \<Rightarrow> Inr (c # s))"

fun utf8_decode :: "nat list \<Rightarrow> exn + py_str" where
  "utf8_decode [] = Inr []"
| "utf8_decode (b # bs) =
     (if b < 0x80 then cons_cp b (utf8_decode bs)
      else if 0xC2 \<le> b \<and> b \<le> 0xDF then
        (case bs of
           c1 # r \<Rightarrow>
             if cont_byte 0x80 0xBF c1
             then cons_cp ((b - 0xC0) * 64 + (c1 - 0x80)) (utf8_decode r)
             else Inl UnicodeDecodeError
         | _ \<Rightarrow> Inl UnicodeDecodeError)
      else if 0xE0 \<le> b \<and> b \<le> 0xEF then
        (case bs of
           c1 # c2 # r \<Rightarrow>
             if cont_byte (second_lo b) (second_hi b) c1 \<and> cont_byte 0x80 0xBF c2
             then cons_cp ((b - 0xE0) * 4096 + (c1 - 0x80) * 64 + (c2 - 0x80)) (utf8_decode r)
             else Inl UnicodeDecodeError
         | _ \<Rightarrow> Inl UnicodeDecodeError)
      else if 0xF0 \<le> b \<and> b \<le> 0xF4 then
        (case bs of
           c1 # c2 # c3 # r \<Rightarrow>
             if cont_byte (second_lo b) (second_hi b) c1 \<and> cont_byte 0x80 0xBF c2
                \<and> cont_byte 0x80 0xBF c3
             then cons_cp ((b - 0xF0) * 262144 + (c1 - 0x80) * 4096 + (c2 - 0x80) * 64
                           + (c3 - 0x80)) (utf8_decode r)
             else Inl UnicodeDecodeError
         | _ \<Rightarrow> Inl UnicodeDecodeError)
      else Inl UnicodeDecodeError)"

definition decode :: "bytes \<Rightarrow> exn + py_str" where
  "decode b = utf8_decode (map unat b)"

subsection \<open>The class DeckMemory\<close>

definition MASK_IS_VALID :: int where "MASK_IS_VALID = 1"
definition MASK_IS_STARTED :: int where "MASK_IS_STARTED = 2"
definition MASK_SUPPORTS_READ :: int where "MASK_SUPPORTS_READ = 4"
definition MASK_SUPPORTS_WRITE :: int where "MASK_SUPPORTS_WRITE = 8"
definition MASK_SUPPORTS_UPGRADE :: int where "MASK_SUPPORTS_UPGRADE = 16"
definition MASK_UPGRADE_REQUIRED :: int where "MASK_UPGRADE_REQUIRED = 32"
definition MASK_BOOTLOADER_ACTIVE :: int where "MASK_BOOTLOADER_ACTIVE = 64"

text \<open>
  The attributes of a \<^verbatim>\<open>DeckMemory\<close> object; \<open>None\<close> is Python's \<^verbatim>\<open>None\<close>. The
  attribute \<^verbatim>\<open>_deck_memory_manager\<close> is the manager whose state the operations below
  take and return.
\<close>

record DeckMemory =
  required_hash :: "int option"
  required_length :: "int option"
  name :: "py_str option"
  base_address :: "int option"
  bit_field :: int

text \<open>\<^verbatim>\<open>DeckMemory.__init__\<close>\<close>

definition DeckMemory_init :: DeckMemory where
  "DeckMemory_init =
     \<lparr>required_hash = None, required_length = None, name = None,
      base_address = None, bit_field = 0\<rparr>"

definition is_valid :: "DeckMemory \<Rightarrow> bool" where
  "is_valid d = (bit_field d AND MASK_IS_VALID \<noteq> 0)"

definition is_started :: "DeckMemory \<Rightarrow> bool" where
  "is_started d = (bit_field d AND MASK_IS_STARTED \<noteq> 0)"

definition supports_read :: "DeckMemory \<Rightarrow> bool" where
  "supports_read d = (bit_field d AND MASK_SUPPORTS_READ \<noteq> 0)"

definition supports_write :: "DeckMemory \<Rightarrow> bool" where
  "supports_write d = (bit_field d AND MASK_SUPPORTS_WRITE \<noteq> 0)"

definition supports_fw_upgrade :: "DeckMemory \<Rightarrow> bool" where
  "supports_fw_upgrade d = (bit_field d AND MASK_SUPPORTS_UPGRADE \<noteq> 0)"

definition is_fw_upgrade_required :: "DeckMemory \<Rightarrow> bool" where
  "is_fw_upgrade_required d = (bit_field d AND MASK_UPGRADE_REQUIRED \<noteq> 0)"

definition is_bootloader_active :: "DeckMemory \<Rightarrow> bool" where
  "is_bootloader_active d = (bit_field d AND MASK_BOOTLOADER_ACTIVE \<noteq> 0)"

text \<open>\<^verbatim>\<open>DeckMemory._parse\<close>: the object after the call, or the exception raised.\<close>

definition DeckMemory_parse :: "DeckMemory \<Rightarrow> bytes \<Rightarrow> exn + DeckMemory" where
  "DeckMemory_parse d data =
     (case unpack_B (slice data 0 1) of
        Inl e \<Rightarrow> Inl e
      | Inr bf \<Rightarrow>
          let d1 = d\<lparr>bit_field := bf\<rparr> in
          if is_valid d1 then
            (case unpack_LLL19s (drop 1 data) of
               Inl e \<Rightarrow> Inl e
             | Inr (h, l, b, nm) \<Rightarrow>
                 let d2 = d1\<lparr>required_hash := Some h, required_length := Some l,
                             base_address := Some b\<rparr> in
                 (case decode (split0_first nm) of
                    Inl e \<Rightarrow> Inl e
                  | Inr s \<Rightarrow> Inr (d2\<lparr>name := Some s\<rparr>)))
          else Inr d1)"

subsection \<open>The info section\<close>

definition MAX_NR_OF_DECKS :: nat where "MAX_NR_OF_DECKS = 4"
definition SIZE_OF_DECK_MEM_INFO :: nat where "SIZE_OF_DECK_MEM_INFO = 0x20"
definition SIZE_OF_VERSION :: nat where "SIZE_OF_VERSION = 1"
definition SIZE_OF_INFO_SECTION :: nat where
  "SIZE_OF_INFO_SECTION = SIZE_OF_VERSION + MAX_NR_OF_DECKS * SIZE_OF_DECK_MEM_INFO"
definition INFO_SECTION_ADDRESS :: int where "INFO_SECTION_ADDRESS = 0"
definition SUPPORTED_VERSION :: int where "SUPPORTED_VERSION = 1"

text \<open>A Python \<^verbatim>\<open>dict\<close> from the deck index to the deck, in insertion order;
  \<^verbatim>\<open>result[i] = d\<close> is \<open>AList.update i d result\<close>.\<close>

type_synonym deck_dict = "(nat \<times> DeckMemory) list"

text \<open>The body of the loop \<^verbatim>\<open>for i in range(self.MAX_NR_OF_DECKS)\<close> of
  \<^verbatim>\<open>_parse_info_section\<close>, over the indices still to visit.\<close>

fun parse_slots :: "bytes \<Rightarrow> nat list \<Rightarrow> deck_dict \<Rightarrow> exn + deck_dict" where
  "parse_slots data [] result = Inr result"
| "parse_slots data (i # rest) result =
     (let start = SIZE_OF_VERSION + SIZE_OF_DECK_MEM_INFO * i;
          end = start + SIZE_OF_DECK_MEM_INFO
      in case DeckMemory_parse DeckMemory_init (slice data start end) of
           Inl e \<Rightarrow> Inl e
         | Inr deck_memory \<Rightarrow>
             parse_slots data rest
               (if is_valid deck_memory then AList.update i deck_memory result else result))"

text \<open>
  \<^verbatim>\<open>DeckMemoryManager._parse_info_section\<close>. On an unsupported version the argument of
  \<^verbatim>\<open>logger.error\<close> is \<^verbatim>\<open>'Version ' + version + ' not supported'\<close> with \<^verbatim>\<open>version\<close>
  an \<^verbatim>\<open>int\<close>: adding a \<^verbatim>\<open>str\<close> and an \<^verbatim>\<open>int\<close> raises \<^verbatim>\<open>TypeError\<close> before
  anything is logged.
\<close>

definition parse_info_section :: "bytes \<Rightarrow> exn + deck_dict" where
  "parse_info_section data =
     (case unpack_B (slice data 0 1) of
        Inl e \<Rightarrow> Inl e
      | Inr version \<Rightarrow>
          if version \<noteq> SUPPORTED_VERSION then Inl TypeError
          else parse_slots data [0..<MAX_NR_OF_DECKS] [])"

subsection \<open>The class DeckMemoryManager\<close>

text \<open>
  What the manager does to the outside is recorded as a list of effects: the calls of
  \<^verbatim>\<open>self.mem_handler.read(self, addr, length)\<close> and
  \<^verbatim>\<open>self.mem_handler.write(self, addr, data, flush_queue=True)\<close>, the calls of the
  callbacks the client supplied, with their arguments, and the log records (level, format
  string, formatted integers). A callback is a value of the type \<open>'cb\<close>; \<open>None\<close> is
  Python's \<^verbatim>\<open>None\<close>, and calling it raises \<^verbatim>\<open>TypeError\<close>.
\<close>

datatype pyval = PInt int | PBytes bytes | PDecks deck_dict

datatype level = DEBUG | ERROR

datatype 'cb effect =
    MemRead int int
  | MemWrite int bytes bool
  | Call 'cb "pyval list"
  | Log level string "int list"

text \<open>The attributes of the manager; \<open>mem_id\<close> is the attribute \<^verbatim>\<open>id\<close> of the
  base class \<^verbatim>\<open>MemoryElement\<close>.\<close>

record 'cb DeckMemoryManager =
  mem_id :: int
  query_complete_cb :: "'cb option"
  deck_memories :: deck_dict
  read_complete_cb :: "'cb option"
  read_failed_cb :: "'cb option"
  read_base_address :: "int option"
  write_complete_cb :: "'cb option"
  write_failed_cb :: "'cb option"
  write_base_address :: "int option"

text \<open>The result of a method: the exception raised if any, the manager as the
  method leaves it, and the effects up to the return or the raise.\<close>

type_synonym 'cb outcome = "exn option \<times> 'cb DeckMemoryManager \<times> 'cb effect list"

definition raised :: "'cb outcome \<Rightarrow> exn option" where
  "raised r = fst r"

definition state_of :: "'cb outcome \<Rightarrow> 'cb DeckMemoryManager" where
  "state_of r = fst (snd r)"

definition effects_of :: "'cb outcome \<Rightarrow> 'cb effect list" where
  "effects_of r = snd (snd r)"

text \<open>\<^verbatim>\<open>DeckMemoryManager.__init__\<close>\<close>

definition DeckMemoryManager_init :: "int \<Rightarrow> 'cb DeckMemoryManager" where
  "DeckMemoryManager_init i =
     \<lparr>mem_id = i, query_complete_cb = None, deck_memories = [],
      read_complete_cb = None, read_failed_cb = None, read_base_address = Some 0,
      write_complete_cb = None, write_failed_cb = None, write_base_address = Some 0\<rparr>"

text \<open>\<^verbatim>\<open>a + b\<close> and \<^verbatim>\<open>a - b\<close> where \<^verbatim>\<open>b\<close> may be \<^verbatim>\<open>None\<close>.\<close>

definition py_add :: "int \<Rightarrow> int option \<Rightarrow> exn + int" where
  "py_add a b = (case b of None \<Rightarrow> Inl TypeError | Some y \<Rightarrow> Inr (a + y))"

definition py_sub :: "int \<Rightarrow> int option \<Rightarrow> exn + int" where
  "py_sub a b = (case b of None \<Rightarrow> Inl TypeError | Some y \<Rightarrow> Inr (a - y))"

definition clear_query_cb :: "'cb DeckMemoryManager \<Rightarrow> 'cb DeckMemoryManager" where
  "clear_query_cb s = s\<lparr>query_complete_cb := None\<rparr>"

definition clear_read_cb :: "'cb DeckMemoryManager \<Rightarrow> 'cb DeckMemoryManager" where
  "clear_read_cb s = s\<lparr>read_complete_cb := None, read_failed_cb := None\<rparr>"

definition clear_write_cb :: "'cb DeckMemoryManager \<Rightarrow> 'cb DeckMemoryManager" where
  "clear_write_cb s = s\<lparr>write_complete_cb := None, write_failed_cb := None\<rparr>"

definition query_decks :: "'cb DeckMemoryManager \<Rightarrow> 'cb option \<Rightarrow> 'cb outcome" where
  "query_decks s query_cb =
     (if query_complete_cb s \<noteq> None then (Some (Exception ''Query ongoing''), s, [])
      else
        (None, s\<lparr>deck_memories := [], query_complete_cb := query_cb\<rparr>,
         [MemRead INFO_SECTION_ADDRESS (int SIZE_OF_INFO_SECTION)]))"

text \<open>\<^verbatim>\<open>DeckMemoryManager._read\<close>\<close>

definition mgr_read ::
  "'cb DeckMemoryManager \<Rightarrow> int option \<Rightarrow> int \<Rightarrow> int \<Rightarrow> 'cb option \<Rightarrow> 'cb option
     \<Rightarrow> 'cb outcome" where
  "mgr_read s base address len complete_cb failed_cb =
     (if read_complete_cb s \<noteq> None
      then (Some (Exception ''Read operation ongoing''), s, [])
      else
        let s1 = s\<lparr>read_base_address := base, read_complete_cb := complete_cb,
                   read_failed_cb := failed_cb\<rparr>
        in case py_add address (read_base_address s1) of
             Inl e \<Rightarrow> (Some e, s1, [])
           | Inr mapped_address \<Rightarrow> (None, s1, [MemRead mapped_address len]))"

text \<open>\<^verbatim>\<open>DeckMemoryManager._new_data\<close>, called by the memory handler with the memory
  element (here its \<^verbatim>\<open>id\<close>), the address and the data read.\<close>

definition new_data ::
  "'cb DeckMemoryManager \<Rightarrow> int \<Rightarrow> int \<Rightarrow> bytes \<Rightarrow> 'cb outcome" where
  "new_data s mem addr data =
     (if mem = mem_id s then
        if addr = INFO_SECTION_ADDRESS then
          (case parse_info_section data of
             Inl e \<Rightarrow> (Some e, s, [])
           | Inr decks \<Rightarrow>
               let s1 = s\<lparr>deck_memories := decks\<rparr>;
                   tmp_cb = query_complete_cb s1;
                   s2 = clear_query_cb s1
               in case tmp_cb of
                    None \<Rightarrow> (Some TypeError, s2, [])
                  | Some cb \<Rightarrow> (None, s2, [Call cb [PDecks (deck_memories s2)]]))
        else
          let tmp_cb = read_complete_cb s;
              s1 = clear_read_cb s
          in case py_sub addr (read_base_address s1) of
               Inl e \<Rightarrow> (Some e, s1, [])
             | Inr rel \<Rightarrow>
                 (case tmp_cb of
                    None \<Rightarrow> (Some TypeError, s1, [])
                  | Some cb \<Rightarrow> (None, s1, [Call cb [PInt rel, PBytes data]]))
      else (None, s, []))"

text \<open>\<^verbatim>\<open>DeckMemoryManager._new_data_failed\<close>\<close>

definition new_data_failed ::
  "'cb DeckMemoryManager \<Rightarrow> int \<Rightarrow> int \<Rightarrow> bytes \<Rightarrow> 'cb outcome" where
  "new_data_failed s mem addr data =
     (if mem = mem_id s then
        if addr = INFO_SECTION_ADDRESS then
          (None, clear_query_cb s, [Log ERROR ''Deck memory query failed'' []])
        else
          let tmp_cb = read_failed_cb s;
              s1 = clear_read_cb s
          in case tmp_cb of
               Some cb \<Rightarrow>
                 (case py_sub addr (read_base_address s1) of
                    Inl e \<Rightarrow> (Some e, s1, [])
                  | Inr rel \<Rightarrow> (None, s1, [Call cb [PInt rel]]))
             | None \<Rightarrow>
                 (None, s1, [Log ERROR ''Deck memory read failed, addr: {}'' [addr]])
      else (None, s, []))"

text \<open>\<^verbatim>\<open>DeckMemoryManager._write\<close>\<close>

definition mgr_write ::
  "'cb DeckMemoryManager \<Rightarrow> int option \<Rightarrow> int \<Rightarrow> bytes \<Rightarrow> 'cb option \<Rightarrow> 'cb option
     \<Rightarrow> 'cb outcome" where
  "mgr_write s base address data complete_cb failed_cb =
     (if write_complete_cb s \<noteq> None
      then (Some (Exception ''Write operation ongoing''), s, [])
      else
        let s1 = s\<lparr>write_base_address := base, write_complete_cb := complete_cb,
                   write_failed_cb := failed_cb\<rparr>
        in case py_add address (write_base_address s1) of
             Inl e \<Rightarrow> (Some e, s1, [])
           | Inr mapped_address \<Rightarrow> (None, s1, [MemWrite mapped_address data True]))"

text \<open>\<^verbatim>\<open>DeckMemoryManager._write_done\<close>: the address handed to the callback is
  \<^verbatim>\<open>addr - self._read_base_address\<close>.\<close>

definition write_done :: "'cb DeckMemoryManager \<Rightarrow> int \<Rightarrow> int \<Rightarrow> 'cb outcome" where
  "write_done s mem addr =
     (if mem = mem_id s then
        let tmp_cb = write_complete_cb s;
            s1 = clear_write_cb s
        in case py_sub addr (read_base_address s1) of
             Inl e \<Rightarrow> (Some e, s1, [Log DEBUG ''Write data done'' []])
           | Inr rel \<Rightarrow>
               (case tmp_cb of
                  None \<Rightarrow> (Some TypeError, s1, [Log DEBUG ''Write data done'' []])
                | Some cb \<Rightarrow>
                    (None, s1, [Log DEBUG ''Write data done'' [], Call cb [PInt rel]]))
      else (None, s, []))"

text \<open>\<^verbatim>\<open>DeckMemoryManager._write_failed\<close>: the callback is called without a test
  for \<^verbatim>\<open>None\<close>.\<close>

definition write_failed :: "'cb DeckMemoryManager \<Rightarrow> int \<Rightarrow> int \<Rightarrow> 'cb outcome" where
  "write_failed s mem addr =
     (if mem = mem_id s then
        let tmp_cb = write_failed_cb s;
            s1 = clear_write_cb s
        in case py_sub addr (read_base_address s1) of
             Inl e \<Rightarrow> (Some e, s1, [Log DEBUG ''Write failed'' []])
           | Inr rel \<Rightarrow>
               (case tmp_cb of
                  None \<Rightarrow> (Some TypeError, s1, [Log DEBUG ''Write failed'' []])
                | Some cb \<Rightarrow>
                    (None, s1, [Log DEBUG ''Write failed'' [], Call cb [PInt rel]]))
      else (None, s, []))"

definition disconnect :: "'cb DeckMemoryManager \<Rightarrow> 'cb outcome" where
  "disconnect s =
     (None, (clear_write_cb (clear_read_cb (clear_query_cb s)))\<lparr>deck_memories := []\<rparr>, [])"

subsection \<open>The operations of a deck\<close>

text \<open>\<^verbatim>\<open>DeckMemory.read\<close> and \<^verbatim>\<open>DeckMemory.write\<close>, on the manager the deck
  refers to.\<close>

definition DeckMemory_read ::
  "DeckMemory \<Rightarrow> 'cb DeckMemoryManager \<Rightarrow> int \<Rightarrow> int \<Rightarrow> 'cb option \<Rightarrow> 'cb option
     \<Rightarrow> 'cb outcome" where
  "DeckMemory_read d s address len read_complete read_failed =
     (if \<not> supports_read d
      then (Some (Exception ''Deck does not support read operations''), s, [])
      else if \<not> is_started d then (Some (Exception ''Deck not ready''), s, [])
      else mgr_read s (base_address d) address len read_complete read_failed)"

definition DeckMemory_write ::
  "DeckMemory \<Rightarrow> 'cb DeckMemoryManager \<Rightarrow> int \<Rightarrow> bytes \<Rightarrow> 'cb option \<Rightarrow> 'cb option
     \<Rightarrow> 'cb outcome" where
  "DeckMemory_write d s address data write_complete write_failed_arg =
     (if \<not> supports_write d
      then (Some (Exception ''Deck does not support write operations''), s, [])
      else if \<not> is_started d then (Some (Exception ''Deck not ready''), s, [])
      else mgr_write s (base_address d) address data write_complete write_failed_arg)"

subsection \<open>Histories\<close>

text \<open>
  The calls a manager receives over time, from the client (a query, a read or a write
  through a deck, a disconnect) and from the memory handler (data, a failed read, a
  finished or failed write). An exception goes to the caller; the manager stays as the
  raising method left it and takes the next call.
\<close>

datatype 'cb event =
    QueryDecks "'cb option"
  | DeckRead DeckMemory int int "'cb option" "'cb option"
  | DeckWrite DeckMemory int bytes "'cb option" "'cb option"
  | NewData int int bytes
  | NewDataFailed int int bytes
  | WriteDone int int
  | WriteFailed int int
  | Disconnect

fun step :: "'cb DeckMemoryManager \<Rightarrow> 'cb event \<Rightarrow> 'cb outcome" where
  "step s (QueryDecks cb) = query_decks s cb"
| "step s (DeckRead d a l c f) = DeckMemory_read d s a l c f"
| "step s (DeckWrite d a b c f) = DeckMemory_write d s a b c f"
| "step s (NewData m a b) = new_data s m a b"
| "step s (NewDataFailed m a b) = new_data_failed s m a b"
| "step s (WriteDone m a) = write_done s m a"
| "step s (WriteFailed m a) = write_failed s m a"
| "step s Disconnect = disconnect s"

fun run :: "'cb DeckMemoryManager \<Rightarrow> 'cb event list \<Rightarrow> 'cb DeckMemoryManager \<times> 'cb effect list"
  where
  "run s [] = (s, [])"
| "run s (e # es) =
     (let r = step s e; t = run (state_of r) es in (fst t, effects_of r @ snd t))"

text \<open>The callbacks called in a list of effects, the callbacks a call hands to the
  manager, and the callbacks the manager holds.\<close>

fun called :: "'cb effect list \<Rightarrow> 'cb list" where
  "called [] = []"
| "called (Call cb args # fx) = cb # called fx"
| "called (_ # fx) = called fx"

fun supplied :: "'cb event \<Rightarrow> 'cb list" where
  "supplied (QueryDecks c) = (case c of None \<Rightarrow> [] | Some x \<Rightarrow> [x])"
| "supplied (DeckRead d a l c f) =
     (case c of None \<Rightarrow> [] | Some x \<Rightarrow> [x]) @ (case f of None \<Rightarrow> [] | Some x \<Rightarrow> [x])"
| "supplied (DeckWrite d a b c f) =
     (case c of None \<Rightarrow> [] | Some x \<Rightarrow> [x]) @ (case f of None \<Rightarrow> [] | Some x \<Rightarrow> [x])"
| "supplied _ = []"

definition pending :: "'cb DeckMemoryManager \<Rightarrow> 'cb set" where
  "pending s =
     set_option (query_complete_cb s) \<union> set_option (read_complete_cb s)
     \<union> set_option (read_failed_cb s) \<union> set_option (write_complete_cb s)
     \<union> set_option (write_failed_cb s)"

text \<open>The calls that end a read or drop it: data or a failure from this manager's
  memory at an address other than the info section's, and a disconnect.\<close>

fun ends_read :: "int \<Rightarrow> 'cb event \<Rightarrow> bool" where
  "ends_read i (NewData m a b) = (m = i \<and> a \<noteq> INFO_SECTION_ADDRESS)"
| "ends_read i (NewDataFailed m a b) = (m = i \<and> a \<noteq> INFO_SECTION_ADDRESS)"
| "ends_read i Disconnect = True"
| "ends_read i _ = False"

subsection \<open>Example data\<close>

text \<open>
  An info section of 129 bytes: version 1; slot 0 with the bits valid, started, read and
  write, hash \<open>0xAABBCCDD\<close>, length 1024, base address \<open>0x2000\<close> and the name
  \<^verbatim>\<open>bcLighthouse4\<close> padded with NUL bytes; slots 1 to 3 all zero.
\<close>

definition info_example :: bytes where
  "info_example =
     [1,
      0x0F, 0xDD, 0xCC, 0xBB, 0xAA, 0x00, 0x04, 0x00, 0x00, 0x00, 0x20, 0x00, 0x00,
      0x62, 0x63, 0x4C, 0x69, 0x67, 0x68, 0x74, 0x68, 0x6F, 0x75, 0x73, 0x65, 0x34,
      0, 0, 0, 0, 0, 0,
      0, 0, 0, 0, 0, 0, 0, 0, 0, 0, 0, 0, 0, 0, 0, 0,
      0, 0, 0, 0, 0, 0, 0, 0, 0, 0, 0, 0, 0, 0, 0, 0,
      0, 0, 0, 0, 0, 0, 0, 0, 0, 0, 0, 0, 0, 0, 0, 0,
      0, 0, 0, 0, 0, 0, 0, 0, 0, 0, 0, 0, 0, 0, 0, 0,
      0, 0, 0, 0, 0, 0, 0, 0, 0, 0, 0, 0, 0, 0, 0, 0,
      0, 0, 0, 0, 0, 0, 0, 0, 0, 0, 0, 0, 0, 0, 0, 0]"

text \<open>The same section with slot 1 filled: the bits started, read and write but not
  valid, and 31 bytes \<open>0xFF\<close>, which are not UTF-8.\<close>

definition info_junk :: bytes where
  "info_junk =
     [1,
      0x0F, 0xDD, 0xCC, 0xBB, 0xAA, 0x00, 0x04, 0x00, 0x00, 0x00, 0x20, 0x00, 0x00,
      0x62, 0x63, 0x4C, 0x69, 0x67, 0x68, 0x74, 0x68, 0x6F, 0x75, 0x73, 0x65, 0x34,
      0, 0, 0, 0, 0, 0,
      0x0E, 0xFF, 0xFF, 0xFF, 0xFF, 0xFF, 0xFF, 0xFF, 0xFF, 0xFF, 0xFF, 0xFF, 0xFF, 0xFF, 0xFF, 0xFF,
      0xFF, 0xFF, 0xFF, 0xFF, 0xFF, 0xFF, 0xFF, 0xFF, 0xFF, 0xFF, 0xFF, 0xFF, 0xFF, 0xFF, 0xFF, 0xFF,
      0, 0, 0, 0, 0, 0, 0, 0, 0, 0, 0, 0, 0, 0, 0, 0,
      0, 0, 0, 0, 0, 0, 0, 0, 0, 0, 0, 0, 0, 0, 0, 0,
      0, 0, 0, 0, 0, 0, 0, 0, 0, 0, 0, 0, 0, 0, 0, 0,
      0, 0, 0, 0, 0, 0, 0, 0, 0, 0, 0, 0, 0, 0, 0, 0]"

text \<open>The deck that slot 0 of \<open>info_example\<close> describes.\<close>

definition deck_example :: DeckMemory where
  "deck_example =
     \<lparr>required_hash = Some 0xAABBCCDD, required_length = Some 1024,
      name = Some (map of_char ''bcLighthouse4''), base_address = Some 0x2000,
      bit_field = 0x0F\<rparr>"

text \<open>A deck with a given base address and capability bits.\<close>

definition deck_at :: "int \<Rightarrow> int \<Rightarrow> DeckMemory" where
  "deck_at base bits =
     \<lparr>required_hash = Some 0, required_length = Some 0, name = Some [],
      base_address = Some base, bit_field = bits\<rparr>"

text \<open>A manager with a request in flight in each lane, the callbacks numbered.\<close>

definition busy_manager :: "nat DeckMemoryManager" where
  "busy_manager =
     \<lparr>mem_id = 0, query_complete_cb = Some 1, deck_memories = [(0, deck_example)],
      read_complete_cb = Some 2, read_failed_cb = Some 3, read_base_address = Some 0x2000,
      write_complete_cb = Some 4, write_failed_cb = Some 5,
      write_base_address = Some 0x2000\<rparr>"

section \<open>Properties\<close>

subsection \<open>Unfolding\<close>

lemma upt_decks: "[0..<MAX_NR_OF_DECKS] = [0, 1, 2, 3]"
  by (simp add: MAX_NR_OF_DECKS_def upt_rec)

lemmas codec_defs = parse_info_section_def slice_def unpack_B_def unpack_LLL19s_def
  DeckMemory_parse_def DeckMemory_init_def is_valid_def MASK_IS_VALID_def
  SIZE_OF_VERSION_def SIZE_OF_DECK_MEM_INFO_def SUPPORTED_VERSION_def
  split0_first_def decode_def cont_byte_def second_lo_def second_hi_def cons_cp_def upt_decks

lemmas outcome_defs = raised_def state_of_def effects_of_def

lemmas clear_defs = clear_query_cb_def clear_read_cb_def clear_write_cb_def

lemmas flag_defs = is_valid_def is_started_def supports_read_def supports_write_def
  MASK_IS_VALID_def MASK_IS_STARTED_def MASK_SUPPORTS_READ_def MASK_SUPPORTS_WRITE_def

lemmas mgr_defs = DeckMemoryManager_init_def query_decks_def mgr_read_def mgr_write_def
  new_data_def new_data_failed_def write_done_def write_failed_def disconnect_def
  DeckMemory_read_def DeckMemory_write_def py_add_def py_sub_def INFO_SECTION_ADDRESS_def

subsection \<open>The decoder of the info section\<close>

lemma parse_example: "parse_info_section info_example = Inr [(0, deck_example)]"
  by (simp add: info_example_def deck_example_def codec_defs)

lemma parse_junk: "parse_info_section info_junk = Inr [(0, deck_example)]"
  by (simp add: info_junk_def deck_example_def codec_defs)

lemma parse_bad_version: "parse_info_section (info_example[0 := 2]) = Inl TypeError"
  by (simp add: info_example_def codec_defs)

text \<open>Any data whose first byte is not the supported version makes the decoder
  raise.\<close>

lemma unsupported_version_TypeError:
  assumes "data \<noteq> []" and "uint (hd data) \<noteq> SUPPORTED_VERSION"
  shows "parse_info_section data = Inl TypeError"
  using assms by (cases data) (simp_all add: parse_info_section_def unpack_B_def slice_def)

lemma unpack_B_Inr:
  "unpack_B (slice data 0 1) = Inr bf \<Longrightarrow> data \<noteq> [] \<and> bf = uint (hd data)"
  by (cases data) (auto simp: unpack_B_def slice_def split: list.splits)

lemma DeckMemory_parse_bit_field:
  assumes "DeckMemory_parse d data = Inr dm"
  shows "data \<noteq> [] \<and> bit_field dm = uint (hd data)"
proof -
  from assms obtain bf where bf: "unpack_B (slice data 0 1) = Inr bf"
    by (auto simp: DeckMemory_parse_def split: sum.splits)
  with assms have "bit_field dm = bf"
    by (auto simp: DeckMemory_parse_def Let_def split: sum.splits if_splits prod.splits)
  with unpack_B_Inr [OF bf] show ?thesis by simp
qed

lemma hd_slice: "slice data start end \<noteq> [] \<Longrightarrow> hd (slice data start end) = data ! start"
  by (auto simp: slice_def hd_drop_conv_nth hd_take split: if_splits)

lemma first_of_slice:
  assumes "start < length data" and "start < end"
  shows "slice (slice data start end) 0 (Suc 0) = [data ! start]"
proof -
  from assms(1) have "drop start data = data ! start # drop (Suc start) data"
    by (simp add: Cons_nth_drop_Suc)
  moreover from assms(2) obtain k where "end - start = Suc k"
    by (cases "end - start") simp_all
  ultimately show ?thesis by (simp add: slice_def)
qed

text \<open>A slot whose valid bit is clear is decoded from its first byte alone.\<close>

lemma DeckMemory_parse_invalid:
  assumes "start < length data" and "start < end"
    and "uint (data ! start) AND MASK_IS_VALID = 0"
  shows "DeckMemory_parse d (slice data start end) = Inr (d\<lparr>bit_field := uint (data ! start)\<rparr>)"
  using assms(3)
  by (simp add: DeckMemory_parse_def first_of_slice [OF assms(1,2)] unpack_B_def is_valid_def)

lemma parse_slots_absent:
  assumes "parse_slots data idxs acc = Inr decks" and "map_of acc i = None"
    and "uint (data ! (SIZE_OF_VERSION + SIZE_OF_DECK_MEM_INFO * i)) AND MASK_IS_VALID = 0"
  shows "map_of decks i = None"
  using assms
proof (induction idxs arbitrary: acc)
  case Nil
  then show ?case by simp
next
  case (Cons j idxs)
  let ?sl = "slice data (SIZE_OF_VERSION + SIZE_OF_DECK_MEM_INFO * j)
               (SIZE_OF_VERSION + SIZE_OF_DECK_MEM_INFO * j + SIZE_OF_DECK_MEM_INFO)"
  from Cons.prems(1) obtain dm where dm: "DeckMemory_parse DeckMemory_init ?sl = Inr dm"
    and rest: "parse_slots data idxs (if is_valid dm then AList.update j dm acc else acc)
                 = Inr decks"
    by (auto simp: Let_def split: sum.splits)
  have "map_of (if is_valid dm then AList.update j dm acc else acc) i = None"
  proof (cases "j = i")
    case True
    from DeckMemory_parse_bit_field [OF dm]
    have "bit_field dm = uint (data ! (SIZE_OF_VERSION + SIZE_OF_DECK_MEM_INFO * j))"
      by (simp add: hd_slice)
    with True Cons.prems(3) have "\<not> is_valid dm" by (simp add: is_valid_def)
    with Cons.prems(2) show ?thesis by simp
  next
    case False
    with Cons.prems(2) show ?thesis by (simp add: update_conv')
  qed
  from Cons.IH [OF rest this Cons.prems(3)] show ?case .
qed

text \<open>
  Claim C1. The claim: on a version byte other than 1 the decoder returns an empty
  mapping, reports the error and never raises. The code: for the 129-byte section
  \<open>info_example\<close> with its version byte set to 2, \<^verbatim>\<open>_parse_info_section\<close> raises
  \<^verbatim>\<open>TypeError\<close> while it builds the log message, and \<^verbatim>\<open>_new_data\<close>, called with this
  section while a query is in flight, raises too: the deck map is not replaced, the query
  callback stays stored and is not called.
\<close>

theorem version_mismatch_raises:
  "parse_info_section (info_example[0 := 2]) = Inl TypeError
   \<and> new_data (state_of (query_decks (DeckMemoryManager_init 0) (Some (1::nat)))) 0 0
        (info_example[0 := 2])
     = (Some TypeError, state_of (query_decks (DeckMemoryManager_init 0) (Some 1)), [])"
  by (simp add: parse_bad_version new_data_def outcome_defs query_decks_def
      DeckMemoryManager_init_def INFO_SECTION_ADDRESS_def)

text \<open>
  Claim C6. For an info section of the fixed size and a slot index \<open>i\<close> below
  \<^verbatim>\<open>MAX_NR_OF_DECKS\<close> whose capability byte has the valid bit clear: the slot is decoded
  from that byte alone, whatever its other 31 bytes are, and every mapping the decoder
  returns has no entry for \<open>i\<close>.
\<close>

theorem invalid_slot_no_entry:
  assumes "length data = SIZE_OF_INFO_SECTION" and "i < MAX_NR_OF_DECKS"
    and "uint (data ! (SIZE_OF_VERSION + SIZE_OF_DECK_MEM_INFO * i)) AND MASK_IS_VALID = 0"
  shows "DeckMemory_parse DeckMemory_init
           (slice data (SIZE_OF_VERSION + SIZE_OF_DECK_MEM_INFO * i)
              (SIZE_OF_VERSION + SIZE_OF_DECK_MEM_INFO * i + SIZE_OF_DECK_MEM_INFO))
         = Inr (DeckMemory_init
                  \<lparr>bit_field := uint (data ! (SIZE_OF_VERSION + SIZE_OF_DECK_MEM_INFO * i))\<rparr>)
     \<and> (\<forall>decks. parse_info_section data = Inr decks \<longrightarrow> map_of decks i = None)"
proof
  from assms(1,2) have "SIZE_OF_VERSION + SIZE_OF_DECK_MEM_INFO * i < length data"
    by (simp add: SIZE_OF_INFO_SECTION_def SIZE_OF_VERSION_def SIZE_OF_DECK_MEM_INFO_def
        MAX_NR_OF_DECKS_def)
  moreover have "SIZE_OF_VERSION + SIZE_OF_DECK_MEM_INFO * i
      < SIZE_OF_VERSION + SIZE_OF_DECK_MEM_INFO * i + SIZE_OF_DECK_MEM_INFO"
    by (simp add: SIZE_OF_DECK_MEM_INFO_def)
  ultimately show "DeckMemory_parse DeckMemory_init
           (slice data (SIZE_OF_VERSION + SIZE_OF_DECK_MEM_INFO * i)
              (SIZE_OF_VERSION + SIZE_OF_DECK_MEM_INFO * i + SIZE_OF_DECK_MEM_INFO))
         = Inr (DeckMemory_init
                  \<lparr>bit_field := uint (data ! (SIZE_OF_VERSION + SIZE_OF_DECK_MEM_INFO * i))\<rparr>)"
    using assms(3) by (rule DeckMemory_parse_invalid)
next
  show "\<forall>decks. parse_info_section data = Inr decks \<longrightarrow> map_of decks i = None"
  proof (intro allI impI)
    fix decks
    assume "parse_info_section data = Inr decks"
    then have "parse_slots data [0..<MAX_NR_OF_DECKS] [] = Inr decks"
      by (auto simp: parse_info_section_def split: sum.splits if_splits)
    from parse_slots_absent [OF this _ assms(3)] show "map_of decks i = None" by simp
  qed
qed

theorem invalid_slot_no_entry_witness:
  "length info_junk = SIZE_OF_INFO_SECTION \<and> (1::nat) < MAX_NR_OF_DECKS
   \<and> uint (info_junk ! (SIZE_OF_VERSION + SIZE_OF_DECK_MEM_INFO * 1)) AND MASK_IS_VALID = 0
   \<and> parse_info_section info_junk = Inr [(0, deck_example)]
   \<and> map_of [(0::nat, deck_example)] 1 = None"
proof -
  have 1: "length info_junk = SIZE_OF_INFO_SECTION"
    by (simp add: info_junk_def SIZE_OF_INFO_SECTION_def SIZE_OF_VERSION_def
        SIZE_OF_DECK_MEM_INFO_def MAX_NR_OF_DECKS_def)
  have 2: "(1::nat) < MAX_NR_OF_DECKS"
    by (simp add: MAX_NR_OF_DECKS_def)
  have 3: "uint (info_junk ! (SIZE_OF_VERSION + SIZE_OF_DECK_MEM_INFO * 1)) AND MASK_IS_VALID = 0"
    by (simp add: info_junk_def SIZE_OF_VERSION_def SIZE_OF_DECK_MEM_INFO_def MASK_IS_VALID_def)
  from invalid_slot_no_entry [OF 1 2 3] parse_junk 1 2 3 show ?thesis by simp
qed

text \<open>
  Claim C7. Decoding the 129-byte section \<open>info_example\<close> gives exactly the mapping
  with the one key 0, whose deck has base address \<open>0x2000\<close>, required hash
  \<open>0xAABBCCDD\<close>, required length 1024 and the name \<^verbatim>\<open>bcLighthouse4\<close>, and which is
  valid, started, readable and writable. The name is the bytes before the first NUL byte:
  the 19-byte field \<^verbatim>\<open>abc\0xyz\0...\<close> decodes to \<^verbatim>\<open>abc\<close>.
\<close>

theorem decode_lighthouse_example:
  "length info_example = 129
   \<and> parse_info_section info_example =
       Inr [(0, \<lparr>required_hash = Some 0xAABBCCDD, required_length = Some 1024,
                 name = Some (map of_char ''bcLighthouse4''), base_address = Some 0x2000,
                 bit_field = 0x0F\<rparr>)]
   \<and> supports_read deck_example \<and> supports_write deck_example
   \<and> is_valid deck_example \<and> is_started deck_example
   \<and> decode (split0_first
        [0x61, 0x62, 0x63, 0, 0x78, 0x79, 0x7A, 0, 0, 0, 0, 0, 0, 0, 0, 0, 0, 0, 0])
       = Inr (map of_char ''abc'')"
  by (simp add: info_example_def deck_example_def codec_defs flag_defs)

subsection \<open>Requests on a busy lane\<close>

lemma query_decks_busy:
  "query_complete_cb s \<noteq> None \<Longrightarrow>
   query_decks s cb = (Some (Exception ''Query ongoing''), s, [])"
  by (simp add: query_decks_def)

lemma mgr_read_busy:
  "read_complete_cb s \<noteq> None \<Longrightarrow>
   mgr_read s b a l c f = (Some (Exception ''Read operation ongoing''), s, [])"
  by (simp add: mgr_read_def)

lemma mgr_write_busy:
  "write_complete_cb s \<noteq> None \<Longrightarrow>
   mgr_write s b a d c f = (Some (Exception ''Write operation ongoing''), s, [])"
  by (simp add: mgr_write_def)

lemma DeckMemory_read_busy:
  "read_complete_cb s \<noteq> None \<Longrightarrow>
   state_of (DeckMemory_read d s a l c f) = s \<and> effects_of (DeckMemory_read d s a l c f) = []
   \<and> raised (DeckMemory_read d s a l c f) \<noteq> None"
  by (simp add: DeckMemory_read_def mgr_read_busy outcome_defs)

lemma DeckMemory_write_busy:
  "write_complete_cb s \<noteq> None \<Longrightarrow>
   state_of (DeckMemory_write d s a b c f) = s \<and> effects_of (DeckMemory_write d s a b c f) = []
   \<and> raised (DeckMemory_write d s a b c f) \<noteq> None"
  by (simp add: DeckMemory_write_def mgr_write_busy outcome_defs)

text \<open>
  Claim C5. In each lane (query, read, write), a request made while the lane's completion
  callback is stored raises at once (\<^verbatim>\<open>Query ongoing\<close>, \<^verbatim>\<open>Read operation ongoing\<close>,
  \<^verbatim>\<open>Write operation ongoing\<close>), sends nothing to the memory handler and leaves the
  manager exactly as it was: base address and callbacks of the first request are kept,
  and every later history runs as if the rejected call had not been made.
\<close>

theorem busy_lane_rejects:
  "(query_complete_cb s \<noteq> None \<longrightarrow>
      query_decks s qcb = (Some (Exception ''Query ongoing''), s, [])
      \<and> run s (QueryDecks qcb # evs) = run s evs)
   \<and> (read_complete_cb s \<noteq> None \<longrightarrow>
      mgr_read s base a l c f = (Some (Exception ''Read operation ongoing''), s, [])
      \<and> (supports_read d \<and> is_started d \<longrightarrow>
           DeckMemory_read d s a l c f = (Some (Exception ''Read operation ongoing''), s, []))
      \<and> run s (DeckRead d a l c f # evs) = run s evs)
   \<and> (write_complete_cb s \<noteq> None \<longrightarrow>
      mgr_write s base a b c f = (Some (Exception ''Write operation ongoing''), s, [])
      \<and> (supports_write d \<and> is_started d \<longrightarrow>
           DeckMemory_write d s a b c f = (Some (Exception ''Write operation ongoing''), s, []))
      \<and> run s (DeckWrite d a b c f # evs) = run s evs)"
  using DeckMemory_read_busy [of s d a l c f] DeckMemory_write_busy [of s d a b c f]
  by (simp add: query_decks_busy mgr_read_busy mgr_write_busy Let_def
      DeckMemory_read_def DeckMemory_write_def outcome_defs)

theorem busy_lane_rejects_witness:
  "query_complete_cb busy_manager \<noteq> None \<and> read_complete_cb busy_manager \<noteq> None
   \<and> write_complete_cb busy_manager \<noteq> None
   \<and> supports_read deck_example \<and> supports_write deck_example \<and> is_started deck_example
   \<and> query_decks busy_manager (Some 7) = (Some (Exception ''Query ongoing''), busy_manager, [])
   \<and> DeckMemory_read deck_example busy_manager 0x10 4 (Some 7) (Some 8)
       = (Some (Exception ''Read operation ongoing''), busy_manager, [])
   \<and> DeckMemory_write deck_example busy_manager 0x10 [1, 2] (Some 7) (Some 8)
       = (Some (Exception ''Write operation ongoing''), busy_manager, [])
   \<and> run busy_manager [DeckRead deck_example 0x10 4 (Some 7) (Some 8), NewData 0 0x2010 [9]]
       = (busy_manager\<lparr>read_complete_cb := None, read_failed_cb := None\<rparr>,
          [Call 2 [PInt 0x10, PBytes [9]]])"
  using busy_lane_rejects [of busy_manager "Some 7" "[NewData 0 0x2010 [9]]" "Some 0x2000"
      "0x10" 4 "Some 7" "Some 8" deck_example "[1, 2]"]
  by (simp add: busy_manager_def deck_example_def flag_defs outcome_defs clear_defs
      new_data_def py_sub_def INFO_SECTION_ADDRESS_def Let_def)

subsection \<open>The capability gate of a deck\<close>

text \<open>
  Claim C9. \<^verbatim>\<open>DeckMemory.read\<close> raises \<^verbatim>\<open>Deck does not support read operations\<close>
  whenever the supports-read bit is clear, whatever the other bits are, and raises
  \<^verbatim>\<open>Deck not ready\<close> whenever supports-read is set and the started bit is clear; in both
  cases nothing reaches the manager: its state is unchanged and nothing is sent to the
  memory handler.
\<close>

theorem read_capability_gate:
  "(\<not> supports_read d \<longrightarrow>
      DeckMemory_read d s a l c f =
        (Some (Exception ''Deck does not support read operations''), s, []))
   \<and> (supports_read d \<and> \<not> is_started d \<longrightarrow>
      DeckMemory_read d s a l c f = (Some (Exception ''Deck not ready''), s, []))"
  by (simp add: DeckMemory_read_def)

theorem read_capability_gate_witness:
  "\<not> supports_read (deck_at 0x1000 0x0B) \<and> supports_write (deck_at 0x1000 0x0B)
   \<and> is_started (deck_at 0x1000 0x0B)
   \<and> DeckMemory_read (deck_at 0x1000 0x0B) (DeckMemoryManager_init 0) 0x10 4 (Some (1::nat)) None
       = (Some (Exception ''Deck does not support read operations''),
          DeckMemoryManager_init 0, [])
   \<and> supports_read (deck_at 0x1000 0x05) \<and> \<not> is_started (deck_at 0x1000 0x05)
   \<and> DeckMemory_read (deck_at 0x1000 0x05) (DeckMemoryManager_init 0) 0x10 4 (Some (1::nat)) None
       = (Some (Exception ''Deck not ready''), DeckMemoryManager_init 0, [])"
  using read_capability_gate [of "deck_at 0x1000 0x0B" "DeckMemoryManager_init 0" "0x10" 4
      "Some (1::nat)" None]
    read_capability_gate [of "deck_at 0x1000 0x05" "DeckMemoryManager_init 0" "0x10" 4
      "Some (1::nat)" None]
  by (simp add: deck_at_def flag_defs)

subsection \<open>A request without a completion callback\<close>

text \<open>
  Claim C10. A lane counts as busy only while its completion callback is stored. A read
  (or write) accepted with the completion callback \<^verbatim>\<open>None\<close> leaves that attribute
  \<^verbatim>\<open>None\<close>, so a second read (or write) made before the first has ended is accepted
  too, is sent to the memory handler, and replaces the base address and the failure
  callback recorded for the first.
\<close>

theorem none_callback_lane_stays_idle:
  "(read_complete_cb s = None \<longrightarrow>
      mgr_read s (Some b1) a1 l1 None f1 =
        (None, s\<lparr>read_base_address := Some b1, read_complete_cb := None, read_failed_cb := f1\<rparr>,
         [MemRead (a1 + b1) l1])
      \<and> mgr_read (state_of (mgr_read s (Some b1) a1 l1 None f1)) (Some b2) a2 l2 c2 f2 =
        (None, s\<lparr>read_base_address := Some b2, read_complete_cb := c2, read_failed_cb := f2\<rparr>,
         [MemRead (a2 + b2) l2]))
   \<and> (write_complete_cb s = None \<longrightarrow>
      mgr_write s (Some b1) a1 d1 None f1 =
        (None, s\<lparr>write_base_address := Some b1, write_complete_cb := None,
                  write_failed_cb := f1\<rparr>,
         [MemWrite (a1 + b1) d1 True])
      \<and> mgr_write (state_of (mgr_write s (Some b1) a1 d1 None f1)) (Some b2) a2 d2 c2 f2 =
        (None, s\<lparr>write_base_address := Some b2, write_complete_cb := c2,
                  write_failed_cb := f2\<rparr>,
         [MemWrite (a2 + b2) d2 True]))"
  by (simp add: mgr_read_def mgr_write_def py_add_def outcome_defs)

theorem none_callback_lane_stays_idle_witness:
  "read_complete_cb (DeckMemoryManager_init 0 :: nat DeckMemoryManager) = None
   \<and> write_complete_cb (DeckMemoryManager_init 0 :: nat DeckMemoryManager) = None
   \<and> mgr_read (state_of (mgr_read (DeckMemoryManager_init 0) (Some 0x1000) 0x10 4 None (Some 1)))
        (Some 0x2000) 0x20 8 (Some (2::nat)) None
      = (None, (DeckMemoryManager_init 0)\<lparr>read_base_address := Some 0x2000,
                  read_complete_cb := Some 2\<rparr>, [MemRead 0x2020 8])
   \<and> mgr_write
        (state_of (mgr_write (DeckMemoryManager_init 0) (Some 0x1000) 0x10 [1] None (Some 1)))
        (Some 0x2000) 0x20 [2] (Some (2::nat)) None
      = (None, (DeckMemoryManager_init 0)\<lparr>write_base_address := Some 0x2000,
                  write_complete_cb := Some 2\<rparr>, [MemWrite 0x2020 [2] True])"
  using none_callback_lane_stays_idle [of "DeckMemoryManager_init 0 :: nat DeckMemoryManager"
      "0x1000" "0x10" 4 "Some 1" "0x2000" "0x20" 8 "Some 2" None "[1]" "[2]"]
  by (simp add: DeckMemoryManager_init_def outcome_defs mgr_read_def mgr_write_def py_add_def)

subsection \<open>Callbacks called along a history\<close>

lemma called_append: "called (xs @ ys) = called xs @ called ys"
  by (induction xs rule: called.induct) simp_all

lemma query_decks_cbs:
  "set (called (effects_of (query_decks s c))) \<subseteq> pending s \<union> set_option c
   \<and> pending (state_of (query_decks s c)) \<subseteq> pending s \<union> set_option c"
  by (auto simp: query_decks_def outcome_defs pending_def)

lemma mgr_read_cbs:
  "set (called (effects_of (mgr_read s b a l c f))) \<subseteq> pending s \<union> set_option c \<union> set_option f
   \<and> pending (state_of (mgr_read s b a l c f)) \<subseteq> pending s \<union> set_option c \<union> set_option f"
  by (auto simp: mgr_read_def outcome_defs pending_def py_add_def split: option.splits)

lemma mgr_write_cbs:
  "set (called (effects_of (mgr_write s b a d c f))) \<subseteq> pending s \<union> set_option c \<union> set_option f
   \<and> pending (state_of (mgr_write s b a d c f)) \<subseteq> pending s \<union> set_option c \<union> set_option f"
  by (auto simp: mgr_write_def outcome_defs pending_def py_add_def split: option.splits)

lemma new_data_cbs:
  "set (called (effects_of (new_data s m a b))) \<subseteq> pending s
   \<and> pending (state_of (new_data s m a b)) \<subseteq> pending s"
  by (auto simp: new_data_def outcome_defs pending_def py_sub_def clear_defs Let_def
      split: option.splits sum.splits)

lemma new_data_failed_cbs:
  "set (called (effects_of (new_data_failed s m a b))) \<subseteq> pending s
   \<and> pending (state_of (new_data_failed s m a b)) \<subseteq> pending s"
  by (auto simp: new_data_failed_def outcome_defs pending_def py_sub_def clear_defs Let_def
      split: option.splits sum.splits)

lemma write_done_cbs:
  "set (called (effects_of (write_done s m a))) \<subseteq> pending s
   \<and> pending (state_of (write_done s m a)) \<subseteq> pending s"
  by (auto simp: write_done_def outcome_defs pending_def py_sub_def clear_defs Let_def
      split: option.splits sum.splits)

lemma write_failed_cbs:
  "set (called (effects_of (write_failed s m a))) \<subseteq> pending s
   \<and> pending (state_of (write_failed s m a)) \<subseteq> pending s"
  by (auto simp: write_failed_def outcome_defs pending_def py_sub_def clear_defs Let_def
      split: option.splits sum.splits)

lemma disconnect_cbs:
  "called (effects_of (disconnect s)) = [] \<and> pending (state_of (disconnect s)) = {}"
  by (simp add: disconnect_def outcome_defs pending_def clear_defs)

lemma set_supplied_opt: "set (case c of None \<Rightarrow> [] | Some x \<Rightarrow> [x]) = set_option c"
  by (cases c) simp_all

text \<open>A call makes the manager call, and leaves it holding, only callbacks it held
  before or was handed in this call.\<close>

lemma step_cbs:
  "set (called (effects_of (step s e))) \<subseteq> pending s \<union> set (supplied e)
   \<and> pending (state_of (step s e)) \<subseteq> pending s \<union> set (supplied e)"
proof (cases e)
  case (QueryDecks c)
  then show ?thesis using query_decks_cbs [of s c] by (simp add: set_supplied_opt)
next
  case (DeckRead d a l c f)
  then show ?thesis using mgr_read_cbs [of s "base_address d" a l c f]
    by (auto simp: set_supplied_opt DeckMemory_read_def outcome_defs)
next
  case (DeckWrite d a b c f)
  then show ?thesis using mgr_write_cbs [of s "base_address d" a b c f]
    by (auto simp: set_supplied_opt DeckMemory_write_def outcome_defs)
next
  case (NewData m a b)
  then show ?thesis using new_data_cbs [of s m a b] by auto
next
  case (NewDataFailed m a b)
  then show ?thesis using new_data_failed_cbs [of s m a b] by auto
next
  case (WriteDone m a)
  then show ?thesis using write_done_cbs [of s m a] by auto
next
  case (WriteFailed m a)
  then show ?thesis using write_failed_cbs [of s m a] by auto
next
  case Disconnect
  then show ?thesis using disconnect_cbs [of s] by simp
qed

lemma run_cbs:
  "set (called (snd (run s evs))) \<subseteq> pending s \<union> set (concat (map supplied evs))"
proof (induction evs arbitrary: s)
  case Nil
  then show ?case by simp
next
  case (Cons e evs)
  from step_cbs [of s e] Cons.IH [of "state_of (step s e)"]
  show ?case by (auto simp: Let_def called_append)
qed

text \<open>
  Claim C8. \<^verbatim>\<open>disconnect\<close> raises nothing and calls nothing; after it the deck map is
  empty and the five stored callbacks of the three lanes are \<^verbatim>\<open>None\<close>. Whatever calls
  the manager receives afterwards, every callback it calls is one that was handed to it in
  one of those later calls: none of the callbacks pending at the disconnect is called on
  account of the request it was stored for.
\<close>

theorem disconnect_clears_and_silences:
  "raised (disconnect s) = None \<and> effects_of (disconnect s) = []
   \<and> deck_memories (state_of (disconnect s)) = []
   \<and> query_complete_cb (state_of (disconnect s)) = None
   \<and> read_complete_cb (state_of (disconnect s)) = None
   \<and> read_failed_cb (state_of (disconnect s)) = None
   \<and> write_complete_cb (state_of (disconnect s)) = None
   \<and> write_failed_cb (state_of (disconnect s)) = None
   \<and> set (called (snd (run (state_of (disconnect s)) evs))) \<subseteq> set (concat (map supplied evs))"
  using run_cbs [of "state_of (disconnect s)" evs] disconnect_cbs [of s]
  by (simp add: disconnect_def outcome_defs clear_defs)

theorem disconnect_clears_and_silences_witness:
  "pending busy_manager = {1, 2, 3, 4, 5}
   \<and> state_of (disconnect busy_manager)
       = busy_manager\<lparr>query_complete_cb := None, deck_memories := [], read_complete_cb := None,
           read_failed_cb := None, write_complete_cb := None, write_failed_cb := None\<rparr>
   \<and> called (snd (run (state_of (disconnect busy_manager))
        [NewData 0 0x2010 [9], NewDataFailed 0 0x2010 [], WriteDone 0 0x2010,
         WriteFailed 0 0x2010, NewDataFailed 0 0 [],
         DeckRead deck_example 0x10 4 (Some 7) None, NewData 0 0x2010 [9]])) = [7]
   \<and> set (called (snd (run (state_of (disconnect busy_manager))
        [NewData 0 0x2010 [9], NewDataFailed 0 0x2010 [], WriteDone 0 0x2010,
         WriteFailed 0 0x2010, NewDataFailed 0 0 [],
         DeckRead deck_example 0x10 4 (Some 7) None, NewData 0 0x2010 [9]])))
      \<subseteq> set (concat (map supplied
        [NewData 0 0x2010 [9], NewDataFailed 0 0x2010 [], WriteDone 0 0x2010,
         WriteFailed 0 0x2010, NewDataFailed 0 0 [],
         DeckRead deck_example 0x10 4 (Some 7) None, NewData 0 0x2010 [9 :: byte] :: nat event]))"
  using disconnect_clears_and_silences [of busy_manager
        "[NewData 0 0x2010 [9], NewDataFailed 0 0x2010 [], WriteDone 0 0x2010,
         WriteFailed 0 0x2010, NewDataFailed 0 0 [],
         DeckRead deck_example 0x10 4 (Some 7) None, NewData 0 0x2010 [9]]"]
  by (auto simp: busy_manager_def deck_example_def pending_def mgr_defs outcome_defs
      clear_defs flag_defs Let_def)

subsection \<open>Completion of a write\<close>

text \<open>
  Claim C2. The claim: the callback of a finished write gets the address of the event
  minus the base address the write lane recorded, that is the relative address of the
  request. The code: a fresh manager takes a write at relative address \<open>0x10\<close> through a deck
  with base address \<open>0x1000\<close>, records that base in the write lane and sends the write at
  \<open>0x1010\<close>; at the write-done event for \<open>0x1010\<close>, \<^verbatim>\<open>_write_done\<close> subtracts the
  base address of the read lane (still 0) and calls the callback with \<open>0x1010\<close>.
\<close>

theorem write_done_uses_read_base:
  "DeckMemory_write (deck_at 0x1000 0x0F) (DeckMemoryManager_init 0) 0x10 [1, 2, 3, 4]
       (Some (1::nat)) None
     = (None,
        (DeckMemoryManager_init 0)\<lparr>write_base_address := Some 0x1000,
           write_complete_cb := Some 1\<rparr>,
        [MemWrite 0x1010 [1, 2, 3, 4] True])
   \<and> write_done
        (state_of (DeckMemory_write (deck_at 0x1000 0x0F) (DeckMemoryManager_init 0) 0x10
           [1, 2, 3, 4] (Some (1::nat)) None)) 0 0x1010
     = (None, (DeckMemoryManager_init 0)\<lparr>write_base_address := Some 0x1000\<rparr>,
        [Log DEBUG ''Write data done'' [], Call 1 [PInt 0x1010]])"
  by (simp add: mgr_defs outcome_defs clear_defs flag_defs deck_at_def)

text \<open>
  Claim C3. The claim: a failed write whose request gave no failure callback is logged
  and the failure path does not raise. The code: after the same write, made without a
  failure callback, \<^verbatim>\<open>_write_failed\<close> logs \<^verbatim>\<open>Write failed\<close> at debug level, clears the
  lane and calls the stored failure callback, which is \<^verbatim>\<open>None\<close>: it raises
  \<^verbatim>\<open>TypeError\<close>, and no error is logged.
\<close>

theorem write_failed_without_callback_raises:
  "write_failed
        (state_of (DeckMemory_write (deck_at 0x1000 0x0F) (DeckMemoryManager_init 0) 0x10
           [1, 2, 3, 4] (Some (1::nat)) None)) 0 0x1010
     = (Some TypeError, (DeckMemoryManager_init 0)\<lparr>write_base_address := Some 0x1000\<rparr>,
        [Log DEBUG ''Write failed'' []])"
  by (simp add: mgr_defs outcome_defs clear_defs flag_defs deck_at_def)

subsection \<open>The round trip of a read\<close>

lemma step_keeps_read:
  assumes "read_complete_cb s \<noteq> None" and "\<not> ends_read (mem_id s) e"
  shows "read_complete_cb (state_of (step s e)) = read_complete_cb s
    \<and> read_failed_cb (state_of (step s e)) = read_failed_cb s
    \<and> read_base_address (state_of (step s e)) = read_base_address s
    \<and> mem_id (state_of (step s e)) = mem_id s"
proof (cases e)
  case (QueryDecks c)
  then show ?thesis by (simp add: query_decks_def outcome_defs)
next
  case (DeckRead d a l c f)
  with assms(1) show ?thesis by (simp add: DeckMemory_read_def mgr_read_def outcome_defs)
next
  case (DeckWrite d a b c f)
  then show ?thesis
    by (simp add: DeckMemory_write_def mgr_write_def outcome_defs py_add_def split: option.splits)
next
  case (NewData m a b)
  with assms(2) show ?thesis
    by (auto simp: new_data_def outcome_defs clear_defs Let_def split: sum.splits option.splits)
next
  case (NewDataFailed m a b)
  with assms(2) show ?thesis
    by (auto simp: new_data_failed_def outcome_defs clear_defs)
next
  case (WriteDone m a)
  then show ?thesis
    by (simp add: write_done_def outcome_defs clear_defs py_sub_def Let_def split: option.splits)
next
  case (WriteFailed m a)
  then show ?thesis
    by (simp add: write_failed_def outcome_defs clear_defs py_sub_def Let_def split: option.splits)
next
  case Disconnect
  with assms(2) show ?thesis by simp
qed

lemma run_keeps_read:
  assumes "read_complete_cb s \<noteq> None" and "\<forall>e \<in> set evs. \<not> ends_read (mem_id s) e"
  shows "read_complete_cb (fst (run s evs)) = read_complete_cb s
    \<and> read_failed_cb (fst (run s evs)) = read_failed_cb s
    \<and> read_base_address (fst (run s evs)) = read_base_address s
    \<and> mem_id (fst (run s evs)) = mem_id s"
  using assms
proof (induction evs arbitrary: s)
  case Nil
  then show ?case by simp
next
  case (Cons e evs)
  from Cons.prems have k: "read_complete_cb (state_of (step s e)) = read_complete_cb s
    \<and> read_failed_cb (state_of (step s e)) = read_failed_cb s
    \<and> read_base_address (state_of (step s e)) = read_base_address s
    \<and> mem_id (state_of (step s e)) = mem_id s"
    by (intro step_keeps_read) simp_all
  with Cons.prems have "read_complete_cb (state_of (step s e)) \<noteq> None"
    and "\<forall>x \<in> set evs. \<not> ends_read (mem_id (state_of (step s e))) x"
    by simp_all
  from Cons.IH [OF this] k show ?case by (simp add: Let_def)
qed

lemma new_data_read_lane:
  assumes "read_complete_cb s = Some cb" and "read_base_address s = Some B"
    and "a \<noteq> INFO_SECTION_ADDRESS"
  shows "new_data s (mem_id s) a data
         = (None, clear_read_cb s, [Call cb [PInt (a - B), PBytes data]])"
  using assms by (simp add: new_data_def py_sub_def clear_defs)

text \<open>
  Claim C4, as stated: for every read through a deck with base address \<open>B\<close> at relative
  address \<open>R\<close>, the manager reads at \<open>B + R\<close> and, when the data for that address
  arrive, calls the completion callback with \<open>R\<close> and the data. It fails where \<open>B + R\<close>
  is the address of the info section: a deck with base address 0 (valid, started,
  readable) read at relative address 0 makes the manager read at address 0, and
  \<^verbatim>\<open>_new_data\<close> takes the four bytes that arrive for address 0 as the answer to a query.
  It decodes them as an info section, which raises; the completion callback of the read is
  not called and stays stored.
\<close>

theorem read_at_info_address_not_completed:
  "DeckMemory_read (deck_at 0 0x0F) (DeckMemoryManager_init 0) 0 4 (Some (1::nat)) None
     = (None, (DeckMemoryManager_init 0)\<lparr>read_complete_cb := Some 1\<rparr>, [MemRead 0 4])
   \<and> new_data
       (state_of (DeckMemory_read (deck_at 0 0x0F) (DeckMemoryManager_init 0) 0 4
          (Some (1::nat)) None)) 0 0 [1, 0x0F, 0xDD, 0xCC]
     = (Some StructError, (DeckMemoryManager_init 0)\<lparr>read_complete_cb := Some 1\<rparr>, [])"
  by (simp add: mgr_defs outcome_defs clear_defs flag_defs deck_at_def codec_defs)

text \<open>
  Claim C4, amended: for every read through a readable, started deck with base address
  \<open>B\<close> at a relative address \<open>R\<close> such that \<open>B + R\<close> is not the address of the info
  section, accepted by an idle read lane with a completion callback, the manager records
  \<open>B\<close> and reads at \<open>B + R\<close>; and after any calls that neither end nor drop the read
  (queries and their answers, which replace the deck map, writes and their events, further
  reads, which are rejected), the data arriving for \<open>B + R\<close> make it clear the lane and call
  the completion callback with exactly \<open>R\<close> and the data.
\<close>

theorem read_round_trip:
  assumes "supports_read d" and "is_started d" and "base_address d = Some B"
    and "read_complete_cb s = None"
    and "R + B \<noteq> INFO_SECTION_ADDRESS"
    and "\<forall>e \<in> set evs. \<not> ends_read (mem_id s) e"
  shows "DeckMemory_read d s R len (Some cb) fcb =
           (None, s\<lparr>read_base_address := Some B, read_complete_cb := Some cb,
                     read_failed_cb := fcb\<rparr>, [MemRead (R + B) len])
     \<and> new_data (fst (run (state_of (DeckMemory_read d s R len (Some cb) fcb)) evs))
         (mem_id s) (R + B) data =
           (None,
            clear_read_cb (fst (run (state_of (DeckMemory_read d s R len (Some cb) fcb)) evs)),
            [Call cb [PInt R, PBytes data]])"
proof -
  let ?s1 = "s\<lparr>read_base_address := Some B, read_complete_cb := Some cb, read_failed_cb := fcb\<rparr>"
  have r: "DeckMemory_read d s R len (Some cb) fcb = (None, ?s1, [MemRead (R + B) len])"
    using assms(1-4) by (simp add: DeckMemory_read_def mgr_read_def py_add_def)
  have "read_complete_cb ?s1 \<noteq> None" and "\<forall>e \<in> set evs. \<not> ends_read (mem_id ?s1) e"
    using assms(6) by simp_all
  from run_keeps_read [OF this]
  have k: "read_complete_cb (fst (run ?s1 evs)) = Some cb"
    "read_base_address (fst (run ?s1 evs)) = Some B"
    "mem_id (fst (run ?s1 evs)) = mem_id s"
    by simp_all
  from new_data_read_lane [OF k(1) k(2) assms(5), of data] k(3) r
  show ?thesis by (simp add: outcome_defs)
qed

theorem read_round_trip_witness:
  "supports_read (deck_at 0x1000 0x0F) \<and> is_started (deck_at 0x1000 0x0F)
   \<and> base_address (deck_at 0x1000 0x0F) = Some 0x1000
   \<and> read_complete_cb (DeckMemoryManager_init 0 :: nat DeckMemoryManager) = None
   \<and> (0x10::int) + 0x1000 \<noteq> INFO_SECTION_ADDRESS
   \<and> \<not> ends_read (mem_id (DeckMemoryManager_init 0 :: nat DeckMemoryManager))
         (QueryDecks (Some (2::nat)))
   \<and> \<not> ends_read (mem_id (DeckMemoryManager_init 0 :: nat DeckMemoryManager))
         (NewData 0 0 info_example :: nat event)
   \<and> DeckMemory_read (deck_at 0x1000 0x0F) (DeckMemoryManager_init 0) 0x10 4 (Some (1::nat)) None
     = (None, (DeckMemoryManager_init 0)\<lparr>read_base_address := Some 0x1000,
                 read_complete_cb := Some 1\<rparr>, [MemRead 0x1010 4])
   \<and> new_data
       (fst (run (state_of (DeckMemory_read (deck_at 0x1000 0x0F) (DeckMemoryManager_init 0)
                   0x10 4 (Some (1::nat)) None))
               [QueryDecks (Some 2), NewData 0 0 info_example]))
       0 0x1010 [9, 8, 7, 6]
     = (None,
        (DeckMemoryManager_init 0)\<lparr>read_base_address := Some 0x1000,
           deck_memories := [(0, deck_example)]\<rparr>,
        [Call 1 [PInt 0x10, PBytes [9, 8, 7, 6]]])"
  using read_round_trip [of "deck_at 0x1000 0x0F" "0x1000" "DeckMemoryManager_init 0" "0x10"
      "[QueryDecks (Some 2), NewData 0 0 info_example]" 4 1 None "[9, 8, 7, 6]"]
  by (simp add: mgr_defs outcome_defs clear_defs flag_defs deck_at_def parse_example Let_def)

end
